theory Spec2Isabelle
  imports Main "HOL-Library.Word"
begin

unbundle bit_operations_syntax

section \<open>Machine types\<close>

type_synonym uint8_t = "8 word"
type_synonym int8_t = "8 word"
type_synonym uint16_t = "16 word"
type_synonym int16_t = "16 word"
type_synonym uint32_t = "32 word"

section \<open>The constants of Adafruit\_ILI9341.h\<close>

text \<open>
  The source includes \<^verbatim>\<open>Adafruit_ILI9341.h\<close>, which is not under src.
  The constants it declares and the driver uses are therefore a parameter of every
  operation: the native panel size and the command codes of the controller, each as the
  value that reaches its \<^verbatim>\<open>uint8_t\<close> (command) or \<^verbatim>\<open>int16_t\<close> (dimension) destination.
\<close>

record ILI9341_h =
  ILI9341_TFTWIDTH :: int16_t
  ILI9341_TFTHEIGHT :: int16_t
  ILI9341_SWRESET :: uint8_t
  ILI9341_SLPOUT :: uint8_t
  ILI9341_INVOFF :: uint8_t
  ILI9341_INVON :: uint8_t
  ILI9341_GAMMASET :: uint8_t
  ILI9341_DISPON :: uint8_t
  ILI9341_CASET :: uint8_t
  ILI9341_PASET :: uint8_t
  ILI9341_RAMWR :: uint8_t
  ILI9341_MADCTL :: uint8_t
  ILI9341_VSCRSADD :: uint8_t
  ILI9341_PIXFMT :: uint8_t
  ILI9341_FRMCTR1 :: uint8_t
  ILI9341_DFUNCTR :: uint8_t
  ILI9341_PWCTR1 :: uint8_t
  ILI9341_PWCTR2 :: uint8_t
  ILI9341_VMCTR1 :: uint8_t
  ILI9341_VMCTR2 :: uint8_t
  ILI9341_GMCTRP1 :: uint8_t
  ILI9341_GMCTRN1 :: uint8_t

text \<open>
  One instance of the header, used to run the model on concrete inputs: a 240 x 320 panel
  and the command codes of the ILI9341 data sheet.
\<close>

definition ILI9341_datasheet :: ILI9341_h where
  "ILI9341_datasheet =
     \<lparr> ILI9341_TFTWIDTH = 240, ILI9341_TFTHEIGHT = 320,
       ILI9341_SWRESET = 0x01, ILI9341_SLPOUT = 0x11,
       ILI9341_INVOFF = 0x20, ILI9341_INVON = 0x21,
       ILI9341_GAMMASET = 0x26, ILI9341_DISPON = 0x29,
       ILI9341_CASET = 0x2A, ILI9341_PASET = 0x2B, ILI9341_RAMWR = 0x2C,
       ILI9341_MADCTL = 0x36, ILI9341_VSCRSADD = 0x37, ILI9341_PIXFMT = 0x3A,
       ILI9341_FRMCTR1 = 0xB1, ILI9341_DFUNCTR = 0xB6,
       ILI9341_PWCTR1 = 0xC0, ILI9341_PWCTR2 = 0xC1,
       ILI9341_VMCTR1 = 0xC5, ILI9341_VMCTR2 = 0xC7,
       ILI9341_GMCTRP1 = 0xE0, ILI9341_GMCTRN1 = 0xE1 \<rparr>"

text \<open>The table of \<^verbatim>\<open>begin\<close> ends at the first command byte 0, so a header whose
  command codes are all non-zero lets the whole table run.\<close>

definition table_cmds_nonzero :: "ILI9341_h \<Rightarrow> bool" where
  "table_cmds_nonzero c \<longleftrightarrow>
     ILI9341_PWCTR1 c \<noteq> 0 \<and> ILI9341_PWCTR2 c \<noteq> 0 \<and> ILI9341_VMCTR1 c \<noteq> 0 \<and>
     ILI9341_VMCTR2 c \<noteq> 0 \<and> ILI9341_MADCTL c \<noteq> 0 \<and> ILI9341_VSCRSADD c \<noteq> 0 \<and>
     ILI9341_PIXFMT c \<noteq> 0 \<and> ILI9341_FRMCTR1 c \<noteq> 0 \<and> ILI9341_DFUNCTR c \<noteq> 0 \<and>
     ILI9341_GAMMASET c \<noteq> 0 \<and> ILI9341_GMCTRP1 c \<noteq> 0 \<and> ILI9341_GMCTRN1 c \<noteq> 0 \<and>
     ILI9341_SLPOUT c \<noteq> 0 \<and> ILI9341_DISPON c \<noteq> 0"

section \<open>The MADCTL flags of the source\<close>

definition MADCTL_MY :: uint8_t where "MADCTL_MY = 0x80"
definition MADCTL_MX :: uint8_t where "MADCTL_MX = 0x40"
definition MADCTL_MV :: uint8_t where "MADCTL_MV = 0x20"
definition MADCTL_ML :: uint8_t where "MADCTL_ML = 0x10"
definition MADCTL_RGB :: uint8_t where "MADCTL_RGB = 0x00"
definition MADCTL_BGR :: uint8_t where "MADCTL_BGR = 0x08"
definition MADCTL_MH :: uint8_t where "MADCTL_MH = 0x04"

section \<open>The driver object and the transport\<close>

text \<open>
  What a call does to the transport is recorded as a trace of events, one per call of a
  primitive of the base class \<^verbatim>\<open>Adafruit_SPITFT\<close> or of \<^verbatim>\<open>::delay\<close>.
\<close>

datatype event =
    InitSPI uint32_t
  | StartWrite
  | EndWrite
  | WriteCommand uint8_t
  | SpiWrite uint8_t
  | SpiRead uint8_t
  | Delay nat

text \<open>
  The data members the source reads or writes (\<^verbatim>\<open>_rst\<close>, \<^verbatim>\<open>_width\<close>, \<^verbatim>\<open>_height\<close>,
  \<^verbatim>\<open>rotation\<close>, inherited from the base classes), followed by the transport: the trace
  so far, the bytes the bus answers to successive reads, and the number of reads done.
\<close>

record tft =
  rst :: int8_t
  width :: int16_t
  height :: int16_t
  rotation :: uint8_t
  bus :: "event list"
  miso :: "nat \<Rightarrow> uint8_t"
  nread :: nat

text \<open>The data members of the driver object alone.\<close>

definition members :: "tft \<Rightarrow> int8_t \<times> int16_t \<times> int16_t \<times> uint8_t" where
  "members s = (rst s, width s, height s, rotation s)"

subsection \<open>Transport primitives\<close>

text \<open>Modelled from the spec: \<^verbatim>\<open>initSPI\<close> of the base class \<^verbatim>\<open>Adafruit_SPITFT\<close>, which is
  not under src; it configures the transport at the given clock frequency.\<close>

definition initSPI :: "uint32_t \<Rightarrow> tft \<Rightarrow> tft" where
  "initSPI freq s = s\<lparr>bus := bus s @ [InitSPI freq]\<rparr>"

text \<open>Modelled from the spec: \<^verbatim>\<open>startWrite\<close> of \<^verbatim>\<open>Adafruit_SPITFT\<close>, not under src;
  it begins a scoped bus transaction.\<close>

definition startWrite :: "tft \<Rightarrow> tft" where
  "startWrite s = s\<lparr>bus := bus s @ [StartWrite]\<rparr>"

text \<open>Modelled from the spec: \<^verbatim>\<open>endWrite\<close> of \<^verbatim>\<open>Adafruit_SPITFT\<close>, not under src;
  it ends the scoped bus transaction.\<close>

definition endWrite :: "tft \<Rightarrow> tft" where
  "endWrite s = s\<lparr>bus := bus s @ [EndWrite]\<rparr>"

text \<open>Modelled from the spec: \<^verbatim>\<open>writeCommand\<close> of \<^verbatim>\<open>Adafruit_SPITFT\<close>, not under src;
  it issues one command byte.\<close>

definition writeCommand :: "uint8_t \<Rightarrow> tft \<Rightarrow> tft" where
  "writeCommand cmd s = s\<lparr>bus := bus s @ [WriteCommand cmd]\<rparr>"

text \<open>Modelled from the spec: \<^verbatim>\<open>spiWrite\<close> of \<^verbatim>\<open>Adafruit_SPITFT\<close>, not under src;
  it writes one data byte.\<close>

definition spiWrite :: "uint8_t \<Rightarrow> tft \<Rightarrow> tft" where
  "spiWrite b s = s\<lparr>bus := bus s @ [SpiWrite b]\<rparr>"

text \<open>Modelled from the spec: \<^verbatim>\<open>spiRead\<close> of \<^verbatim>\<open>Adafruit_SPITFT\<close>, not under src;
  it reads one byte back over the transport.\<close>

definition spiRead :: "tft \<Rightarrow> uint8_t \<times> tft" where
  "spiRead s =
     (let r = miso s (nread s)
      in (r, s\<lparr>bus := bus s @ [SpiRead r], nread := nread s + 1\<rparr>))"

text \<open>Modelled from the spec: the macro \<^verbatim>\<open>SPI_WRITE16\<close>, not under src; it writes a
  16-bit value big-endian over the bus, the high byte first.\<close>

definition SPI_WRITE16 :: "uint16_t \<Rightarrow> tft \<Rightarrow> tft" where
  "SPI_WRITE16 v s = spiWrite (ucast v) (spiWrite (ucast (drop_bit 8 v)) s)"

text \<open>Modelled from the spec: the delay primitive \<^verbatim>\<open>::delay\<close> of the platform, not
  under src; it waits the given number of time units.\<close>

definition delay :: "nat \<Rightarrow> tft \<Rightarrow> tft" where
  "delay n s = s\<lparr>bus := bus s @ [Delay n]\<rparr>"

section \<open>The initialisation table\<close>

definition initcmd :: "ILI9341_h \<Rightarrow> uint8_t list" where
  "initcmd c =
   [0xEF, 3, 0x03, 0x80, 0x02, 0xCF, 3, 0x00, 0xC1, 0x30, 0xED, 4, 0x64, 0x03, 0x12, 0x81,
    0xE8, 3, 0x85, 0x00, 0x78, 0xCB, 5, 0x39, 0x2C, 0x00, 0x34, 0x02,
    0xF7, 1, 0x20, 0xEA, 2, 0x00, 0x00, ILI9341_PWCTR1 c, 1, 0x23,
    ILI9341_PWCTR2 c, 1, 0x10,
    ILI9341_VMCTR1 c, 2, 0x3e, 0x28,
    ILI9341_VMCTR2 c, 1, 0x86,
    ILI9341_MADCTL c, 1, 0x48,
    ILI9341_VSCRSADD c, 1, 0x00,
    ILI9341_PIXFMT c, 1, 0x55, ILI9341_FRMCTR1 c, 2, 0x00, 0x18,
    ILI9341_DFUNCTR c, 3, 0x08, 0x82, 0x27,
    0xF2, 1, 0x00,
    ILI9341_GAMMASET c, 1, 0x01,
    ILI9341_GMCTRP1 c, 15, 0x0F, 0x31, 0x2B, 0x0C, 0x0E, 0x08,
    0x4E, 0xF1, 0x37, 0x07, 0x10, 0x03, 0x0E, 0x09, 0x00,
    ILI9341_GMCTRN1 c, 15, 0x00, 0x0E, 0x14, 0x03, 0x11, 0x07,
    0x31, 0xC1, 0x48, 0x08, 0x0F, 0x0C, 0x31, 0x36, 0x0F,
    ILI9341_SLPOUT c, 0x80,
    ILI9341_DISPON c, 0x80,
    0x00]"

text \<open>\<^verbatim>\<open>*addr\<close>: the source reads the table through a pointer and checks no bound, so a
  read past the end of the table has no defined result.\<close>

definition deref :: "uint8_t list \<Rightarrow> nat \<Rightarrow> uint8_t option" where
  "deref tbl addr = (if addr < length tbl then Some (tbl ! addr) else None)"

section \<open>begin\<close>

text \<open>The inner loop \<^verbatim>\<open>while (numArgs--) { spiWrite(*addr++); }\<close>; it returns the
  advanced pointer with the state.\<close>

function write_args :: "uint8_t list \<Rightarrow> uint8_t \<Rightarrow> nat \<Rightarrow> tft \<Rightarrow> (nat \<times> tft) option" where
  "write_args tbl numArgs addr s =
     (if numArgs \<noteq> 0 then
        (case deref tbl addr of
           None \<Rightarrow> None
         | Some b \<Rightarrow> write_args tbl (numArgs - 1) (addr + 1) (spiWrite b s))
      else Some (addr, s))"
  by pat_completeness auto
termination
proof (relation "measure (\<lambda>(tbl, numArgs, addr, s). unat numArgs)")
  show "wf (measure (\<lambda>(tbl, numArgs, addr, s). unat numArgs))" by simp
next
  fix tbl :: "uint8_t list" and numArgs :: uint8_t and addr :: nat and s :: tft and b :: uint8_t
  assume "numArgs \<noteq> 0"
  then have "unat (numArgs - 1) < unat numArgs"
    by (simp add: unat_minus_one unat_gt_0 word_neq_0_conv)
  then show "((tbl, numArgs - 1, addr + 1, spiWrite b s), (tbl, numArgs, addr, s))
      \<in> measure (\<lambda>(tbl, numArgs, addr, s). unat numArgs)"
    by simp
qed

declare write_args.simps [simp del]

text \<open>The loop \<^verbatim>\<open>while ((cmd = *addr++) > 0) { ... }\<close> of \<^verbatim>\<open>begin\<close>.\<close>

function init_loop :: "uint8_t list \<Rightarrow> nat \<Rightarrow> tft \<Rightarrow> tft option" where
  "init_loop tbl addr s =
     (case deref tbl addr of
        None \<Rightarrow> None
      | Some cmd \<Rightarrow>
          if cmd > 0 then
            (case deref tbl (addr + 1) of
               None \<Rightarrow> None
             | Some x \<Rightarrow>
                 (case write_args tbl (x AND 0x7F) (addr + 2) (writeCommand cmd s) of
                    None \<Rightarrow> None
                  | Some (addr', s') \<Rightarrow>
                      init_loop tbl addr' (if x AND 0x80 \<noteq> 0 then delay 150 s' else s')))
          else Some s)"
  by pat_completeness auto
termination
proof (relation "measure (\<lambda>(tbl, addr, s). length tbl - addr)")
  show "wf (measure (\<lambda>(tbl, addr, s). length tbl - addr))" by simp
next
  fix tbl :: "uint8_t list" and addr :: nat and s :: tft and cmd x :: uint8_t
    and r :: "nat \<times> tft" and addr' :: nat and s' :: tft
  assume c: "deref tbl addr = Some cmd"
    and w: "write_args tbl (x AND 0x7F) (addr + 2) (writeCommand cmd s) = Some r"
    and r: "(addr', s') = r"
  have mono: "write_args t n a st = Some (a', st') \<Longrightarrow> a \<le> a'" for t n a st a' st'
  proof (induction t n a st rule: write_args.induct)
    case (1 t n a st)
    show ?case
    proof (cases "n = 0")
      case True
      with "1.prems" show ?thesis by (simp add: write_args.simps)
    next
      case False
      with "1.prems" obtain b where b: "deref t a = Some b"
        and rec: "write_args t (n - 1) (a + 1) (spiWrite b st) = Some (a', st')"
        by (auto simp: write_args.simps [of t n] split: option.splits)
      from "1.IH" [OF False b rec] show ?thesis by simp
    qed
  qed
  from c have "addr < length tbl" by (simp add: deref_def split: if_splits)
  moreover from w r have "addr + 2 \<le> addr'" by (auto dest: mono)
  ultimately show "((tbl, addr', if x AND 0x80 \<noteq> 0 then delay 150 s' else s'), (tbl, addr, s))
      \<in> measure (\<lambda>(tbl, addr, s). length tbl - addr)"
    by simp
qed

declare init_loop.simps [simp del]

text \<open>\<^verbatim>\<open>Adafruit_ILI9341::begin\<close> (\<open>begin\<close> is a keyword of Isabelle, hence the name).
  The result is \<open>None\<close> where the table loop reads past the end of the table.\<close>

definition tft_begin :: "ILI9341_h \<Rightarrow> uint32_t \<Rightarrow> tft \<Rightarrow> tft option" where
  "tft_begin c freq s0 =
     (let s = initSPI freq s0;
          s = (if sint (rst s) < 0 then
                 (let s = startWrite s;
                      s = writeCommand (ILI9341_SWRESET c) s;
                      s = endWrite s;
                      s = delay 200 s;
                      s = startWrite s;
                      s = writeCommand (ILI9341_SLPOUT c) s;
                      s = endWrite s;
                      s = delay 10 s
                  in s)
               else s);
          s = startWrite s
      in case init_loop (initcmd c) 0 s of
           None \<Rightarrow> None
         | Some s \<Rightarrow>
             Some ((endWrite s)\<lparr>width := ILI9341_TFTWIDTH c, height := ILI9341_TFTHEIGHT c\<rparr>))"

section \<open>setRotation\<close>

text \<open>The \<^verbatim>\<open>switch\<close> has the four cases 0 to 3 and no default.\<close>

definition setRotation :: "ILI9341_h \<Rightarrow> uint8_t \<Rightarrow> tft \<Rightarrow> tft" where
  "setRotation c m s0 =
     (let s = s0\<lparr>rotation := m mod 4\<rparr>;
          (m, s) =
            (if rotation s = 0 then
               (MADCTL_MX OR MADCTL_BGR,
                s\<lparr>width := ILI9341_TFTWIDTH c, height := ILI9341_TFTHEIGHT c\<rparr>)
             else if rotation s = 1 then
               (MADCTL_MV OR MADCTL_BGR,
                s\<lparr>width := ILI9341_TFTHEIGHT c, height := ILI9341_TFTWIDTH c\<rparr>)
             else if rotation s = 2 then
               (MADCTL_MY OR MADCTL_BGR,
                s\<lparr>width := ILI9341_TFTWIDTH c, height := ILI9341_TFTHEIGHT c\<rparr>)
             else if rotation s = 3 then
               (MADCTL_MX OR MADCTL_MY OR MADCTL_MV OR MADCTL_BGR,
                s\<lparr>width := ILI9341_TFTHEIGHT c, height := ILI9341_TFTWIDTH c\<rparr>)
             else (m, s));
          s = startWrite s;
          s = writeCommand (ILI9341_MADCTL c) s;
          s = spiWrite m s;
          s = endWrite s
      in s)"

section \<open>invertDisplay and scrollTo\<close>

definition invertDisplay :: "ILI9341_h \<Rightarrow> bool \<Rightarrow> tft \<Rightarrow> tft" where
  "invertDisplay c invert s0 =
     (let s = startWrite s0;
          s = writeCommand (if invert then ILI9341_INVON c else ILI9341_INVOFF c) s;
          s = endWrite s
      in s)"

definition scrollTo :: "ILI9341_h \<Rightarrow> uint16_t \<Rightarrow> tft \<Rightarrow> tft" where
  "scrollTo c y s0 =
     (let s = startWrite s0;
          s = writeCommand (ILI9341_VSCRSADD c) s;
          s = SPI_WRITE16 y s;
          s = endWrite s
      in s)"

section \<open>setAddrWindow\<close>

text \<open>
  \<^verbatim>\<open>static_cast<uint16_t>(a + b - 1U)\<close>: the two \<^verbatim>\<open>uint16_t\<close> operands are promoted to
  the 32-bit \<^verbatim>\<open>int\<close> of the target, where their sum cannot overflow; subtracting the
  unsigned \<^verbatim>\<open>1U\<close> is done in 32-bit unsigned arithmetic, which wraps; the cast keeps the
  low 16 bits.
\<close>

definition far_corner :: "uint16_t \<Rightarrow> uint16_t \<Rightarrow> uint16_t" where
  "far_corner a b = ucast ((ucast a + ucast b :: uint32_t) - 1)"

definition setAddrWindow :: "ILI9341_h \<Rightarrow> uint16_t \<Rightarrow> uint16_t \<Rightarrow> uint16_t \<Rightarrow> uint16_t \<Rightarrow> tft \<Rightarrow> tft" where
  "setAddrWindow c x1 y1 w h s0 =
     (let x2 = far_corner x1 w;
          y2 = far_corner y1 h;
          s = writeCommand (ILI9341_CASET c) s0;
          s = SPI_WRITE16 x1 s;
          s = SPI_WRITE16 x2 s;
          s = writeCommand (ILI9341_PASET c) s;
          s = SPI_WRITE16 y1 s;
          s = SPI_WRITE16 y2 s;
          s = writeCommand (ILI9341_RAMWR c) s
      in s)"

section \<open>readcommand8\<close>

text \<open>\<^verbatim>\<open>0x10 + index\<close> is passed to the \<^verbatim>\<open>uint8_t\<close> parameter of \<^verbatim>\<open>spiWrite\<close>, which
  keeps its low 8 bits.\<close>

definition readcommand8 :: "uint8_t \<Rightarrow> uint8_t \<Rightarrow> tft \<Rightarrow> uint8_t \<times> tft" where
  "readcommand8 command index s0 =
     (let s = startWrite s0;
          s = writeCommand 0xD9 s;
          s = spiWrite (0x10 + index) s;
          s = writeCommand command s;
          (r, s) = spiRead s;
          s = endWrite s
      in (r, s))"

section \<open>The specification's reading of the table\<close>

text \<open>
  The table as the specification describes it, independent of the loop of the source:
  read the command; if it is the sentinel 0, stop. Otherwise read the length byte, take
  its low 7 bits as the number of arguments, issue the command, write that many argument
  bytes verbatim, and wait 150 time units if the high bit of the length byte is set.
  A record that would run past the end of the table has no interpretation.
\<close>

fun interpret_table :: "uint8_t list \<Rightarrow> event list option" where
  "interpret_table [] = None"
| "interpret_table [command] = (if command = 0 then Some [] else None)"
| "interpret_table (command # len # rest) =
     (if command = 0 then Some []
      else if length rest < unat (len AND 0x7F) then None
      else
        (case interpret_table (drop (unat (len AND 0x7F)) rest) of
           None \<Rightarrow> None
         | Some evs \<Rightarrow>
             Some (WriteCommand command # map SpiWrite (take (unat (len AND 0x7F)) rest)
                   @ (if bit len 7 then [Delay 150] else []) @ evs)))"

section \<open>Scoped bus transactions in a trace\<close>

text \<open>The number of transactions a trace opens, and the number it closes.\<close>

definition opened :: "event list \<Rightarrow> nat" where
  "opened evs = count_list evs StartWrite"

definition closed :: "event list \<Rightarrow> nat" where
  "closed evs = count_list evs EndWrite"

text \<open>
  A trace is scoped when its transactions do not nest, each one opened is closed, and
  every command write, data write and read lies inside one. The flag tells whether a
  transaction is open at the start of the trace.
\<close>

fun scoped :: "bool \<Rightarrow> event list \<Rightarrow> bool" where
  "scoped inside [] = (\<not> inside)"
| "scoped inside (StartWrite # evs) = (\<not> inside \<and> scoped True evs)"
| "scoped inside (EndWrite # evs) = (inside \<and> scoped False evs)"
| "scoped inside (WriteCommand b # evs) = (inside \<and> scoped inside evs)"
| "scoped inside (SpiWrite b # evs) = (inside \<and> scoped inside evs)"
| "scoped inside (SpiRead b # evs) = (inside \<and> scoped inside evs)"
| "scoped inside (InitSPI f # evs) = scoped inside evs"
| "scoped inside (Delay n # evs) = scoped inside evs"

text \<open>Events that are bus traffic inside a transaction: neither its opening nor its
  closing.\<close>

fun is_traffic :: "event \<Rightarrow> bool" where
  "is_traffic StartWrite = False"
| "is_traffic EndWrite = False"
| "is_traffic (InitSPI f) = False"
| "is_traffic e = True"

section \<open>Traces used to state the properties\<close>

text \<open>The events of the branch \<^verbatim>\<open>if (_rst < 0)\<close> of \<^verbatim>\<open>begin\<close>, by the value of \<^verbatim>\<open>_rst\<close>.\<close>

definition reset_events :: "ILI9341_h \<Rightarrow> int8_t \<Rightarrow> event list" where
  "reset_events c r =
     (if sint r < 0 then
        [StartWrite, WriteCommand (ILI9341_SWRESET c), EndWrite, Delay 200,
         StartWrite, WriteCommand (ILI9341_SLPOUT c), EndWrite, Delay 10]
      else [])"

text \<open>The records of \<^verbatim>\<open>initcmd\<close> written out as events: each command, its argument
  bytes in table order, and a delay of 150 after the two records whose length byte is
  \<^verbatim>\<open>0x80\<close>.\<close>

definition init_events :: "ILI9341_h \<Rightarrow> event list" where
  "init_events c =
   [WriteCommand 0xEF, SpiWrite 0x03, SpiWrite 0x80, SpiWrite 0x02,
    WriteCommand 0xCF, SpiWrite 0x00, SpiWrite 0xC1, SpiWrite 0x30,
    WriteCommand 0xED, SpiWrite 0x64, SpiWrite 0x03, SpiWrite 0x12, SpiWrite 0x81,
    WriteCommand 0xE8, SpiWrite 0x85, SpiWrite 0x00, SpiWrite 0x78,
    WriteCommand 0xCB, SpiWrite 0x39, SpiWrite 0x2C, SpiWrite 0x00, SpiWrite 0x34,
      SpiWrite 0x02,
    WriteCommand 0xF7, SpiWrite 0x20,
    WriteCommand 0xEA, SpiWrite 0x00, SpiWrite 0x00,
    WriteCommand (ILI9341_PWCTR1 c), SpiWrite 0x23,
    WriteCommand (ILI9341_PWCTR2 c), SpiWrite 0x10,
    WriteCommand (ILI9341_VMCTR1 c), SpiWrite 0x3e, SpiWrite 0x28,
    WriteCommand (ILI9341_VMCTR2 c), SpiWrite 0x86,
    WriteCommand (ILI9341_MADCTL c), SpiWrite 0x48,
    WriteCommand (ILI9341_VSCRSADD c), SpiWrite 0x00,
    WriteCommand (ILI9341_PIXFMT c), SpiWrite 0x55,
    WriteCommand (ILI9341_FRMCTR1 c), SpiWrite 0x00, SpiWrite 0x18,
    WriteCommand (ILI9341_DFUNCTR c), SpiWrite 0x08, SpiWrite 0x82, SpiWrite 0x27,
    WriteCommand 0xF2, SpiWrite 0x00,
    WriteCommand (ILI9341_GAMMASET c), SpiWrite 0x01,
    WriteCommand (ILI9341_GMCTRP1 c), SpiWrite 0x0F, SpiWrite 0x31, SpiWrite 0x2B,
      SpiWrite 0x0C, SpiWrite 0x0E, SpiWrite 0x08, SpiWrite 0x4E, SpiWrite 0xF1,
      SpiWrite 0x37, SpiWrite 0x07, SpiWrite 0x10, SpiWrite 0x03, SpiWrite 0x0E,
      SpiWrite 0x09, SpiWrite 0x00,
    WriteCommand (ILI9341_GMCTRN1 c), SpiWrite 0x00, SpiWrite 0x0E, SpiWrite 0x14,
      SpiWrite 0x03, SpiWrite 0x11, SpiWrite 0x07, SpiWrite 0x31, SpiWrite 0xC1,
      SpiWrite 0x48, SpiWrite 0x08, SpiWrite 0x0F, SpiWrite 0x0C, SpiWrite 0x31,
      SpiWrite 0x36, SpiWrite 0x0F,
    WriteCommand (ILI9341_SLPOUT c), Delay 150,
    WriteCommand (ILI9341_DISPON c), Delay 150]"

text \<open>A 16-bit value on the bus, big-endian: the data byte of its upper 8 bits, then the
  data byte of its lower 8 bits.\<close>

definition big_endian16 :: "nat \<Rightarrow> event list" where
  "big_endian16 v = [SpiWrite (of_nat (v div 256)), SpiWrite (of_nat (v mod 256))]"

text \<open>A driver object to run the operations on: the given reset pin, a 240 x 320 panel
  in rotation 0, nothing sent yet, and a bus that answers the n-th read with the byte
  \<open>0xA0 + n\<close>.\<close>

definition example_tft :: "int8_t \<Rightarrow> tft" where
  "example_tft r =
     \<lparr> rst = r, width = 240, height = 320, rotation = 0,
       bus = [], miso = (\<lambda>n. 0xA0 + of_nat n), nread = 0 \<rparr>"

section \<open>The table loop against the specification's reading\<close>

lemma bit7_iff: "x AND 0x80 \<noteq> 0 \<longleftrightarrow> bit x 7" for x :: uint8_t
  using and_exp_eq_0_iff_not_bit [of x 7] by simp

lemma write_args_eq:
  "addr \<le> length tbl \<Longrightarrow>
   write_args tbl n addr s =
     (if addr + unat n \<le> length tbl
      then Some (addr + unat n, s\<lparr>bus := bus s @ map SpiWrite (take (unat n) (drop addr tbl))\<rparr>)
      else None)"
proof (induction tbl n addr s rule: write_args.induct)
  case (1 tbl numArgs addr s)
  show ?case
  proof (cases "numArgs = 0")
    case True
    with "1.prems" show ?thesis by (simp add: write_args.simps)
  next
    case False
    then have pos: "0 < unat numArgs" by (simp add: unat_gt_0)
    from False have dec: "unat (numArgs - 1) = unat numArgs - 1"
      by (simp add: unat_minus_one)
    show ?thesis
    proof (cases "addr < length tbl")
      case oob: False
      with False pos "1.prems" show ?thesis
        by (simp add: write_args.simps [of tbl numArgs] deref_def)
    next
      case True
      then have d: "deref tbl addr = Some (tbl ! addr)" by (simp add: deref_def)
      from True have le: "addr + 1 \<le> length tbl" by simp
      have tk: "take (unat numArgs) (drop addr tbl)
          = tbl ! addr # take (unat numArgs - 1) (drop (Suc addr) tbl)"
        using True pos by (cases "unat numArgs") (simp_all add: Cons_nth_drop_Suc [symmetric])
      from "1.IH" [OF False d le] False pos dec d tk show ?thesis
        by (simp add: write_args.simps [of tbl numArgs] spiWrite_def) 
    qed
  qed
qed

lemma init_loop_eq:
  "addr \<le> length tbl \<Longrightarrow>
   init_loop tbl addr s = map_option (\<lambda>evs. s\<lparr>bus := bus s @ evs\<rparr>) (interpret_table (drop addr tbl))"
proof (induction tbl addr s rule: init_loop.induct)
  case (1 tbl addr s)
  show ?case
  proof (cases "addr < length tbl")
    case False
    then have "init_loop tbl addr s = None"
      by (subst init_loop.simps) (simp add: deref_def)
    with False "1.prems" show ?thesis by simp
  next
    case lt: True
    define cmd where "cmd = tbl ! addr"
    have d: "deref tbl addr = Some cmd" using lt by (simp add: deref_def cmd_def)
    have dr: "drop addr tbl = cmd # drop (addr + 1) tbl"
      using lt by (simp add: cmd_def Cons_nth_drop_Suc)
    show ?thesis
    proof (cases "cmd = 0")
      case True
      have "interpret_table (cmd # drop (addr + 1) tbl) = Some []"
        using True by (cases "drop (addr + 1) tbl") simp_all
      with True d dr show ?thesis
        by (simp add: init_loop.simps [of tbl addr])
    next
      case nz: False
      then have pos: "cmd > 0" by (simp add: word_neq_0_conv)
      show ?thesis
      proof (cases "addr + 1 < length tbl")
        case False
        with lt have "drop (addr + 1) tbl = []" by simp
        with nz pos d dr False show ?thesis
          by (simp add: init_loop.simps [of tbl addr] deref_def)
      next
        case lt1: True
        define x where "x = tbl ! (addr + 1)"
        define n where "n = unat (x AND 0x7F)"
        have d1: "deref tbl (addr + 1) = Some x" using lt1 by (simp add: deref_def x_def)
        have dr1: "drop (addr + 1) tbl = x # drop (addr + 2) tbl"
          using lt1 by (simp add: x_def Cons_nth_drop_Suc)
        have le2: "addr + 2 \<le> length tbl" using lt1 by simp
        note wa = write_args_eq [OF le2, of "x AND 0x7F" "writeCommand cmd s", folded n_def]
        show ?thesis
        proof (cases "addr + 2 + n \<le> length tbl")
          case False
          with nz pos d d1 dr dr1 wa show ?thesis
            by (simp add: init_loop.simps [of tbl addr] n_def)
        next
          case True
          define s' where "s' = (writeCommand cmd s)\<lparr>bus := bus (writeCommand cmd s)
              @ map SpiWrite (take n (drop (addr + 2) tbl))\<rparr>"
          have w: "write_args tbl (x AND 0x7F) (addr + 2) (writeCommand cmd s) = Some (addr + 2 + n, s')"
            using wa True by (simp add: s'_def)
          have ih: "init_loop tbl (addr + 2 + n) (if x AND 0x80 \<noteq> 0 then delay 150 s' else s')
              = map_option (\<lambda>evs. (if x AND 0x80 \<noteq> 0 then delay 150 s' else s')
                   \<lparr>bus := bus (if x AND 0x80 \<noteq> 0 then delay 150 s' else s') @ evs\<rparr>)
                  (interpret_table (drop (addr + 2 + n) tbl))"
            by (rule "1.IH" [OF d pos d1 w refl True])
          have dd: "drop n (drop (addr + 2) tbl) = drop (addr + 2 + n) tbl"
            by (simp add: add.commute)
          from True have len: "\<not> length (drop (addr + 2) tbl) < n" by simp
          have step: "init_loop tbl addr s
              = init_loop tbl (addr + 2 + n) (if x AND 0x80 \<noteq> 0 then delay 150 s' else s')"
            by (subst init_loop.simps) (use d pos d1 w in simp)
          have "interpret_table (cmd # x # drop (addr + 2) tbl)
              = (case interpret_table (drop (addr + 2 + n) tbl) of
                   None \<Rightarrow> None
                 | Some evs \<Rightarrow>
                     Some (WriteCommand cmd # map SpiWrite (take n (drop (addr + 2) tbl))
                           @ (if bit x 7 then [Delay 150] else []) @ evs))"
            using nz len by (simp only: interpret_table.simps n_def [symmetric] dd if_False)
          then have rhs: "interpret_table (drop addr tbl)
              = (case interpret_table (drop (addr + 2 + n) tbl) of
                   None \<Rightarrow> None
                 | Some evs \<Rightarrow>
                     Some (WriteCommand cmd # map SpiWrite (take n (drop (addr + 2) tbl))
                           @ (if bit x 7 then [Delay 150] else []) @ evs))"
            by (simp only: dr dr1)
          show ?thesis
            unfolding step ih rhs
            by (cases "interpret_table (drop (addr + 2 + n) tbl)")
               (simp_all add: s'_def writeCommand_def delay_def bit7_iff)
        qed
      qed
    qed
  qed
qed

lemma interpret_initcmd:
  "table_cmds_nonzero c \<Longrightarrow> interpret_table (initcmd c) = Some (init_events c)"
  by (simp add: initcmd_def table_cmds_nonzero_def init_events_def)

lemma interpret_initcmd_total: "\<exists>evs. interpret_table (initcmd c) = Some evs"
  by (simp add: initcmd_def)

section \<open>Word arithmetic of the operations\<close>

lemma far_corner_eq: "far_corner a b = a + b - 1"
proof -
  have "(ucast a + ucast b :: uint32_t) - 1 = word_of_int (uint a + uint b - 1)"
    by (simp only: ucast_eq of_int_add of_int_diff of_int_1)
  then have "far_corner a b = word_of_int (uint a + uint b - 1)"
    by (simp only: far_corner_def) (rule ucast_down_wi, simp add: is_down)
  then show ?thesis by simp
qed

lemma uint_far_corner: "uint (far_corner a b) = (uint a + uint b - 1) mod 2 ^ 16"
  by (simp add: far_corner_eq uint_word_ariths mod_simps)

lemma unat_far_corner:
  assumes "1 \<le> unat a + unat b" and "unat a + unat b - 1 < 2 ^ 16"
  shows "unat (far_corner a b) = unat a + unat b - 1"
proof -
  have eq: "int (unat a + unat b - 1) = uint a + uint b - 1"
    using assms(1) by (simp add: of_nat_diff)
  from assms(2) have "int (unat a + unat b - 1) < 65536" by simp
  with eq have "uint a + uint b - 1 < 2 ^ 16" by simp
  moreover from eq have "0 \<le> uint a + uint b - 1" by linarith
  ultimately have "uint (far_corner a b) = uint a + uint b - 1"
    by (simp add: uint_far_corner)
  with eq have "int (unat (far_corner a b)) = int (unat a + unat b - 1)" by simp
  then show ?thesis by (simp only: of_nat_eq_iff)
qed

lemma hi_byte: "(ucast (drop_bit 8 v) :: uint8_t) = of_nat (unat v div 256)" for v :: uint16_t
  by (simp add: word_unat_eq_iff unsigned_ucast_eq take_bit_eq_mod unat_of_nat unat_drop_bit_eq drop_bit_eq_div unat_div)

lemma lo_byte: "(ucast v :: uint8_t) = of_nat (unat v mod 256)" for v :: uint16_t
  by (simp add: word_unat_eq_iff unsigned_ucast_eq take_bit_eq_mod unat_of_nat)

lemma big_endian16_unat:
  "big_endian16 (unat v) = [SpiWrite (ucast (drop_bit 8 v)), SpiWrite (ucast v)]" for v :: uint16_t
  by (simp only: big_endian16_def flip: hi_byte lo_byte)

lemma SPI_WRITE16_eq: "SPI_WRITE16 v s = s\<lparr>bus := bus s @ big_endian16 (unat v)\<rparr>"
  by (simp only: big_endian16_unat) (simp add: SPI_WRITE16_def spiWrite_def)

lemma mod4_cases: "m mod 4 = 0 \<or> m mod 4 = 1 \<or> m mod 4 = 2 \<or> m mod 4 = 3" for m :: uint8_t
proof -
  have "unat (m mod 4) < 4" by (simp add: unat_mod_distrib)
  then have "unat (m mod 4) = 0 \<or> unat (m mod 4) = 1 \<or> unat (m mod 4) = 2 \<or> unat (m mod 4) = 3"
    by arith
  then show ?thesis by (auto simp: word_unat_eq_iff)
qed

lemma mod4_idem: "(m mod 4) mod 4 = m mod 4" for m :: uint8_t
  by (simp add: mod_word_less word_mod_less_divisor)

section \<open>The trace of begin\<close>

lemma tft_begin_eq:
  "tft_begin c freq s =
     map_option
       (\<lambda>evs. s\<lparr>width := ILI9341_TFTWIDTH c, height := ILI9341_TFTHEIGHT c,
                bus := bus s @ InitSPI freq # reset_events c (rst s) @ StartWrite # evs @ [EndWrite]\<rparr>)
       (interpret_table (initcmd c))"
  by (cases "interpret_table (initcmd c)")
     (simp_all add: tft_begin_def init_loop_eq reset_events_def Let_def initSPI_def startWrite_def
        endWrite_def writeCommand_def delay_def)

lemma interpret_table_traffic:
  "interpret_table tbl = Some evs \<Longrightarrow> list_all is_traffic evs"
proof (induction tbl arbitrary: evs rule: interpret_table.induct)
  case 1
  then show ?case by simp
next
  case (2 command)
  then show ?case by (simp split: if_splits)
next
  case (3 command len rest)
  show ?case
  proof (cases "command = 0")
    case True
    with "3.prems" show ?thesis by simp
  next
    case nz: False
    show ?thesis
    proof (cases "length rest < unat (len AND 0x7F)")
      case True
      with nz "3.prems" show ?thesis by simp
    next
      case False
      with nz "3.prems" obtain tl where
        tl: "interpret_table (drop (unat (len AND 0x7F)) rest) = Some tl"
        and evs: "evs = WriteCommand command # map SpiWrite (take (unat (len AND 0x7F)) rest)
                   @ (if bit len 7 then [Delay 150] else []) @ tl"
        by (auto split: option.splits)
      from "3.IH" [OF nz False tl] have "list_all is_traffic tl" .
      then show ?thesis by (auto simp: evs list_all_iff)
    qed
  qed
qed

lemma scoped_traffic:
  "list_all is_traffic evs \<Longrightarrow> scoped True (evs @ rest) = scoped True rest"
proof (induction evs)
  case Nil
  then show ?case by simp
next
  case (Cons e evs)
  then show ?case by (cases e) simp_all
qed

lemma opened_traffic: "list_all is_traffic evs \<Longrightarrow> opened evs = 0"
  by (induction evs) (auto simp: opened_def)

lemma closed_traffic: "list_all is_traffic evs \<Longrightarrow> closed evs = 0"
  by (induction evs) (auto simp: closed_def)

lemma opened_append: "opened (xs @ ys) = opened xs + opened ys"
  by (induction xs) (simp_all add: opened_def)

lemma closed_append: "closed (xs @ ys) = closed xs + closed ys"
  by (induction xs) (simp_all add: closed_def)

section \<open>Concrete header, address window and transaction counts\<close>

lemma datasheet_nonzero: "table_cmds_nonzero ILI9341_datasheet"
  by (simp add: table_cmds_nonzero_def ILI9341_datasheet_def)

lemma datasheet_codes:
  "ILI9341_SWRESET ILI9341_datasheet = 0x01" "ILI9341_SLPOUT ILI9341_datasheet = 0x11"
  "ILI9341_MADCTL ILI9341_datasheet = 0x36" "ILI9341_CASET ILI9341_datasheet = 0x2A"
  "ILI9341_PASET ILI9341_datasheet = 0x2B" "ILI9341_RAMWR ILI9341_datasheet = 0x2C"
  "ILI9341_INVOFF ILI9341_datasheet = 0x20" "ILI9341_INVON ILI9341_datasheet = 0x21"
  "ILI9341_VSCRSADD ILI9341_datasheet = 0x37"
  "ILI9341_TFTWIDTH ILI9341_datasheet = 240" "ILI9341_TFTHEIGHT ILI9341_datasheet = 320"
  by (simp_all add: ILI9341_datasheet_def)

lemma setAddrWindow_eq:
  "setAddrWindow c x1 y1 w h s =
     s\<lparr>bus := bus s @ WriteCommand (ILI9341_CASET c) # big_endian16 (unat x1)
            @ big_endian16 (unat (far_corner x1 w))
            @ WriteCommand (ILI9341_PASET c) # big_endian16 (unat y1)
            @ big_endian16 (unat (far_corner y1 h)) @ [WriteCommand (ILI9341_RAMWR c)]\<rparr>"
  by (simp add: setAddrWindow_def SPI_WRITE16_eq writeCommand_def Let_def)

lemma opened_simps:
  "opened [] = 0"
  "opened (e # es) = (if e = StartWrite then Suc (opened es) else opened es)"
  by (simp_all add: opened_def)

lemma closed_simps:
  "closed [] = 0"
  "closed (e # es) = (if e = EndWrite then Suc (closed es) else closed es)"
  by (simp_all add: closed_def)

lemma scoped_begin:
  assumes "list_all is_traffic tev"
  shows "scoped False (InitSPI freq # reset_events c r @ StartWrite # tev @ [EndWrite])"
    and "opened (InitSPI freq # reset_events c r @ StartWrite # tev @ [EndWrite])
          = (if sint r < 0 then 3 else 1)"
    and "closed (InitSPI freq # reset_events c r @ StartWrite # tev @ [EndWrite])
          = (if sint r < 0 then 3 else 1)"
  using assms
  by (simp_all add: reset_events_def scoped_traffic opened_append closed_append
      opened_traffic closed_traffic opened_simps closed_simps)

lemma setRotation_rst_rotation:
  "rst (setRotation c m s) = rst s \<and> rotation (setRotation c m s) = m mod 4"
  using mod4_cases [of m]
  by (auto simp: setRotation_def Let_def startWrite_def endWrite_def writeCommand_def spiWrite_def)

section \<open>Properties of the driver\<close>

text \<open>
  C1. The loop of \<^verbatim>\<open>begin\<close> is the specification's reading of a table: for every table
  (well formed or not) it appends, to the trace, for each record the command byte, then
  exactly (length byte AND 0x7F) argument bytes verbatim in table order, then a delay of
  150 if and only if bit 0x80 of the length byte is set, and it stops at the first
  command byte 0. For every call of \<^verbatim>\<open>begin\<close>, what follows the optional reset branch
  in the trace is, inside one startWrite/endWrite pair, this reading of \<^verbatim>\<open>initcmd\<close>; it
  always exists, and when the command codes of the header are non-zero it is the
  literal bytes of the table, \<open>init_events\<close>.
\<close>

theorem begin_interprets_initcmd:
  "init_loop tbl 0 s0 = map_option (\<lambda>evs. s0\<lparr>bus := bus s0 @ evs\<rparr>) (interpret_table tbl) \<and>
   (\<exists>evs. interpret_table (initcmd c) = Some evs \<and>
      map_option bus (tft_begin c freq s)
        = Some (bus s @ InitSPI freq # reset_events c (rst s) @ StartWrite # evs @ [EndWrite]) \<and>
      (table_cmds_nonzero c \<longrightarrow> evs = init_events c))"
proof
  show "init_loop tbl 0 s0 = map_option (\<lambda>evs. s0\<lparr>bus := bus s0 @ evs\<rparr>) (interpret_table tbl)"
    using init_loop_eq [of 0 tbl s0] by simp
next
  obtain evs where evs: "interpret_table (initcmd c) = Some evs"
    using interpret_initcmd_total by blast
  have "table_cmds_nonzero c \<longrightarrow> evs = init_events c"
    using evs by (auto dest: interpret_initcmd)
  with evs show "\<exists>evs. interpret_table (initcmd c) = Some evs \<and>
      map_option bus (tft_begin c freq s)
        = Some (bus s @ InitSPI freq # reset_events c (rst s) @ StartWrite # evs @ [EndWrite]) \<and>
      (table_cmds_nonzero c \<longrightarrow> evs = init_events c)"
    by (simp add: tft_begin_eq)
qed

theorem begin_interprets_initcmd_witness:
  "table_cmds_nonzero ILI9341_datasheet \<and>
   map_option bus (tft_begin ILI9341_datasheet 24000000 (example_tft 4))
     = Some ([InitSPI 24000000, StartWrite] @ init_events ILI9341_datasheet @ [EndWrite]) \<and>
   init_loop [0x11, 0x80, 0x36, 1, 0x48, 0] 0 (example_tft 4)
     = Some ((example_tft 4)\<lparr>bus := [WriteCommand 0x11, Delay 150, WriteCommand 0x36, SpiWrite 0x48]\<rparr>)"
  using begin_interprets_initcmd [of "[0x11, 0x80, 0x36, 1, 0x48, 0]" "example_tft 4"
      ILI9341_datasheet 24000000 "example_tft 4"]
  by (simp add: table_cmds_nonzero_def ILI9341_datasheet_def reset_events_def example_tft_def)

text \<open>
  C2, as the claim states it: a call of \<^verbatim>\<open>begin\<close> would open exactly one transaction in
  both configurations. With no hardware reset pin the call opens three.
\<close>

theorem begin_three_transactions:
  "map_option (opened \<circ> bus) (tft_begin ILI9341_datasheet 24000000 (example_tft (- 1))) = Some 3"
proof -
  have "list_all is_traffic (init_events ILI9341_datasheet)"
    using interpret_table_traffic [OF interpret_initcmd [OF datasheet_nonzero]] .
  then show ?thesis
    by (simp add: tft_begin_eq interpret_initcmd [OF datasheet_nonzero] scoped_begin
        example_tft_def)
qed

text \<open>
  C2, amended. For every call of \<^verbatim>\<open>begin\<close>, in both configurations, the trace is scoped:
  transactions do not nest, each is closed, and every command and data write lies inside
  one. All writes of the initialisation table lie inside one single startWrite/endWrite
  pair, the last of the call. With a hardware reset pin this is the only pair of the
  call; with none the call opens and closes three pairs, the first around the software
  reset and the second around sleep-out.
\<close>

theorem begin_transactions:
  "\<exists>tev. interpret_table (initcmd c) = Some tev \<and> list_all is_traffic tev \<and>
      map_option bus (tft_begin c freq s)
        = Some (bus s @ InitSPI freq # reset_events c (rst s) @ StartWrite # tev @ [EndWrite]) \<and>
      scoped False (InitSPI freq # reset_events c (rst s) @ StartWrite # tev @ [EndWrite]) \<and>
      opened (InitSPI freq # reset_events c (rst s) @ StartWrite # tev @ [EndWrite])
        = (if sint (rst s) < 0 then 3 else 1) \<and>
      closed (InitSPI freq # reset_events c (rst s) @ StartWrite # tev @ [EndWrite])
        = (if sint (rst s) < 0 then 3 else 1)"
proof -
  obtain tev where tev: "interpret_table (initcmd c) = Some tev"
    using interpret_initcmd_total by blast
  then have tr: "list_all is_traffic tev" by (rule interpret_table_traffic)
  from tev have "map_option bus (tft_begin c freq s)
      = Some (bus s @ InitSPI freq # reset_events c (rst s) @ StartWrite # tev @ [EndWrite])"
    by (simp add: tft_begin_eq)
  with tev tr scoped_begin [OF tr] show ?thesis by blast
qed

theorem begin_transactions_witness:
  "map_option bus (tft_begin ILI9341_datasheet 24000000 (example_tft 4))
     = Some ([InitSPI 24000000, StartWrite] @ init_events ILI9341_datasheet @ [EndWrite]) \<and>
   opened ([InitSPI 24000000, StartWrite] @ init_events ILI9341_datasheet @ [EndWrite]) = 1 \<and>
   closed ([InitSPI 24000000, StartWrite] @ init_events ILI9341_datasheet @ [EndWrite]) = 1 \<and>
   scoped False ([InitSPI 24000000, StartWrite] @ init_events ILI9341_datasheet @ [EndWrite]) \<and>
   map_option bus (tft_begin ILI9341_datasheet 24000000 (example_tft (- 1)))
     = Some ([InitSPI 24000000, StartWrite, WriteCommand 0x01, EndWrite, Delay 200,
              StartWrite, WriteCommand 0x11, EndWrite, Delay 10, StartWrite]
             @ init_events ILI9341_datasheet @ [EndWrite]) \<and>
   opened ([InitSPI 24000000, StartWrite, WriteCommand 0x01, EndWrite, Delay 200,
              StartWrite, WriteCommand 0x11, EndWrite, Delay 10, StartWrite]
             @ init_events ILI9341_datasheet @ [EndWrite]) = 3 \<and>
   closed ([InitSPI 24000000, StartWrite, WriteCommand 0x01, EndWrite, Delay 200,
              StartWrite, WriteCommand 0x11, EndWrite, Delay 10, StartWrite]
             @ init_events ILI9341_datasheet @ [EndWrite]) = 3"
  using begin_transactions [of ILI9341_datasheet 24000000 "example_tft 4"]
    begin_transactions [of ILI9341_datasheet 24000000 "example_tft (- 1)"]
  by (simp add: interpret_initcmd [OF datasheet_nonzero] reset_events_def example_tft_def
      datasheet_codes)

text \<open>
  C6. With no hardware reset pin (\<^verbatim>\<open>_rst\<close> negative), after configuring the transport
  the call of \<^verbatim>\<open>begin\<close> issues the software-reset command, waits 200, issues sleep-out,
  waits 10, each command in a transaction of its own, and only then the bytes of the
  initialisation table; the commands, data bytes and delays of the call are exactly
  these four followed by those of the table. With a hardware reset pin the call
  issues the table alone.
\<close>

theorem begin_reset_branch:
  "\<exists>tev. interpret_table (initcmd c) = Some tev \<and>
     (sint (rst s) < 0 \<longrightarrow>
        map_option bus (tft_begin c freq s)
          = Some (bus s @ [InitSPI freq,
                    StartWrite, WriteCommand (ILI9341_SWRESET c), EndWrite, Delay 200,
                    StartWrite, WriteCommand (ILI9341_SLPOUT c), EndWrite, Delay 10]
                  @ StartWrite # tev @ [EndWrite]) \<and>
        map_option (filter is_traffic \<circ> bus) (tft_begin c freq s)
          = Some (filter is_traffic (bus s)
                  @ [WriteCommand (ILI9341_SWRESET c), Delay 200,
                     WriteCommand (ILI9341_SLPOUT c), Delay 10] @ tev)) \<and>
     (0 \<le> sint (rst s) \<longrightarrow>
        map_option bus (tft_begin c freq s)
          = Some (bus s @ [InitSPI freq] @ StartWrite # tev @ [EndWrite]) \<and>
        map_option (filter is_traffic \<circ> bus) (tft_begin c freq s)
          = Some (filter is_traffic (bus s) @ tev))"
proof -
  obtain tev where tev: "interpret_table (initcmd c) = Some tev"
    using interpret_initcmd_total by blast
  then have "list_all is_traffic tev" by (rule interpret_table_traffic)
  then have f: "filter is_traffic tev = tev" by (simp add: list_all_iff)
  show ?thesis
    by (rule exI [of _ tev]) (simp add: tev f tft_begin_eq reset_events_def)
qed

theorem begin_reset_branch_witness:
  "sint (rst (example_tft (- 1))) < 0 \<and> 0 \<le> sint (rst (example_tft 4)) \<and>
   map_option bus (tft_begin ILI9341_datasheet 24000000 (example_tft (- 1)))
     = Some ([InitSPI 24000000, StartWrite, WriteCommand 0x01, EndWrite, Delay 200,
              StartWrite, WriteCommand 0x11, EndWrite, Delay 10, StartWrite]
             @ init_events ILI9341_datasheet @ [EndWrite]) \<and>
   map_option bus (tft_begin ILI9341_datasheet 24000000 (example_tft 4))
     = Some ([InitSPI 24000000, StartWrite] @ init_events ILI9341_datasheet @ [EndWrite])"
  using begin_reset_branch [of ILI9341_datasheet "example_tft (- 1)" 24000000]
    begin_reset_branch [of ILI9341_datasheet "example_tft 4" 24000000]
  by (simp add: interpret_initcmd [OF datasheet_nonzero] example_tft_def datasheet_codes)

text \<open>
  C3. For each r of 0, 1, 2, 3, \<^verbatim>\<open>setRotation(r)\<close> writes, in one transaction, the MADCTL
  command followed by exactly one data byte: mirror-X | colour-order for 0, swap-XY |
  colour-order for 1, mirror-Y | colour-order for 2, mirror-X | mirror-Y | swap-XY |
  colour-order for 3, that is 0x48, 0x28, 0x88, 0xE8. It stores r as the rotation and
  sets the cached (width, height) to the native (W, H) for 0 and 2 and to the
  transposed (H, W) for 1 and 3; nothing else changes.
\<close>

theorem setRotation_table:
  "setRotation c 0 s =
     s\<lparr>width := ILI9341_TFTWIDTH c, height := ILI9341_TFTHEIGHT c, rotation := 0,
       bus := bus s @ [StartWrite, WriteCommand (ILI9341_MADCTL c),
                       SpiWrite (MADCTL_MX OR MADCTL_BGR), EndWrite]\<rparr> \<and>
   setRotation c 1 s =
     s\<lparr>width := ILI9341_TFTHEIGHT c, height := ILI9341_TFTWIDTH c, rotation := 1,
       bus := bus s @ [StartWrite, WriteCommand (ILI9341_MADCTL c),
                       SpiWrite (MADCTL_MV OR MADCTL_BGR), EndWrite]\<rparr> \<and>
   setRotation c 2 s =
     s\<lparr>width := ILI9341_TFTWIDTH c, height := ILI9341_TFTHEIGHT c, rotation := 2,
       bus := bus s @ [StartWrite, WriteCommand (ILI9341_MADCTL c),
                       SpiWrite (MADCTL_MY OR MADCTL_BGR), EndWrite]\<rparr> \<and>
   setRotation c 3 s =
     s\<lparr>width := ILI9341_TFTHEIGHT c, height := ILI9341_TFTWIDTH c, rotation := 3,
       bus := bus s @ [StartWrite, WriteCommand (ILI9341_MADCTL c),
                       SpiWrite (MADCTL_MX OR MADCTL_MY OR MADCTL_MV OR MADCTL_BGR), EndWrite]\<rparr> \<and>
   MADCTL_MX OR MADCTL_BGR = 0x48 \<and> MADCTL_MV OR MADCTL_BGR = 0x28 \<and>
   MADCTL_MY OR MADCTL_BGR = 0x88 \<and> MADCTL_MX OR MADCTL_MY OR MADCTL_MV OR MADCTL_BGR = 0xE8"
  by (simp add: setRotation_def Let_def startWrite_def endWrite_def writeCommand_def
      spiWrite_def MADCTL_MX_def MADCTL_MY_def MADCTL_MV_def MADCTL_BGR_def)

theorem setRotation_table_witness:
  "bus (setRotation ILI9341_datasheet 3 (example_tft 4))
     = [StartWrite, WriteCommand 0x36, SpiWrite 0xE8, EndWrite] \<and>
   width (setRotation ILI9341_datasheet 3 (example_tft 4)) = 320 \<and>
   height (setRotation ILI9341_datasheet 3 (example_tft 4)) = 240 \<and>
   bus (setRotation ILI9341_datasheet 0 (example_tft 4))
     = [StartWrite, WriteCommand 0x36, SpiWrite 0x48, EndWrite] \<and>
   width (setRotation ILI9341_datasheet 0 (example_tft 4)) = 240 \<and>
   height (setRotation ILI9341_datasheet 0 (example_tft 4)) = 320"
  using setRotation_table [of ILI9341_datasheet "example_tft 4"]
  by (simp add: datasheet_codes example_tft_def MADCTL_MX_def MADCTL_MY_def MADCTL_MV_def MADCTL_BGR_def)

text \<open>
  C4. For every 8-bit r, \<^verbatim>\<open>setRotation(r)\<close> gives the same trace and the same final state
  (stored rotation, cached width and height, and all the rest) as
  \<^verbatim>\<open>setRotation(r mod 4)\<close>.
\<close>

theorem setRotation_periodic: "setRotation c r s = setRotation c (r mod 4) s"
  using mod4_cases [of r] by (auto simp: setRotation_def Let_def mod4_idem)

theorem setRotation_periodic_witness:
  "setRotation ILI9341_datasheet 7 (example_tft 4) = setRotation ILI9341_datasheet 3 (example_tft 4) \<and>
   bus (setRotation ILI9341_datasheet 7 (example_tft 4))
     = [StartWrite, WriteCommand 0x36, SpiWrite 0xE8, EndWrite] \<and>
   rotation (setRotation ILI9341_datasheet 7 (example_tft 4)) = 3"
  using setRotation_periodic [of ILI9341_datasheet 7 "example_tft 4"]
  by (simp add: setRotation_def Let_def startWrite_def endWrite_def writeCommand_def
      spiWrite_def MADCTL_MX_def MADCTL_MY_def MADCTL_MV_def MADCTL_BGR_def datasheet_codes example_tft_def)

text \<open>
  C5. When x1 + w - 1 and y1 + h - 1, as integers, are 16-bit unsigned values,
  \<^verbatim>\<open>setAddrWindow(x1, y1, w, h)\<close> emits exactly, in order: the column-address-set
  command, x1 and then x2 = x1 + w - 1 each as two bytes big-endian, the
  row-address-set command, y1 and then y2 = y1 + h - 1 each big-endian, and the
  write-to-RAM command. In particular \<^verbatim>\<open>setAddrWindow(10, 20, 5, 8)\<close> emits column-set
  (10, 14), row-set (20, 27) and RAM-write.
\<close>

theorem setAddrWindow_trace:
  "(1 \<le> unat x1 + unat w \<and> unat x1 + unat w - 1 < 2 ^ 16 \<and>
    1 \<le> unat y1 + unat h \<and> unat y1 + unat h - 1 < 2 ^ 16 \<longrightarrow>
      setAddrWindow c x1 y1 w h s =
        s\<lparr>bus := bus s @ WriteCommand (ILI9341_CASET c) # big_endian16 (unat x1)
               @ big_endian16 (unat x1 + unat w - 1)
               @ WriteCommand (ILI9341_PASET c) # big_endian16 (unat y1)
               @ big_endian16 (unat y1 + unat h - 1) @ [WriteCommand (ILI9341_RAMWR c)]\<rparr>) \<and>
   setAddrWindow c 10 20 5 8 s =
     s\<lparr>bus := bus s @ [WriteCommand (ILI9341_CASET c),
                      SpiWrite 0, SpiWrite 10, SpiWrite 0, SpiWrite 14,
                      WriteCommand (ILI9341_PASET c),
                      SpiWrite 0, SpiWrite 20, SpiWrite 0, SpiWrite 27,
                      WriteCommand (ILI9341_RAMWR c)]\<rparr>"
proof (intro conjI impI)
  assume "1 \<le> unat x1 + unat w \<and> unat x1 + unat w - 1 < 2 ^ 16 \<and>
    1 \<le> unat y1 + unat h \<and> unat y1 + unat h - 1 < 2 ^ 16"
  then have "unat (far_corner x1 w) = unat x1 + unat w - 1"
    and "unat (far_corner y1 h) = unat y1 + unat h - 1"
    by (simp_all add: unat_far_corner)
  then show "setAddrWindow c x1 y1 w h s =
        s\<lparr>bus := bus s @ WriteCommand (ILI9341_CASET c) # big_endian16 (unat x1)
               @ big_endian16 (unat x1 + unat w - 1)
               @ WriteCommand (ILI9341_PASET c) # big_endian16 (unat y1)
               @ big_endian16 (unat y1 + unat h - 1) @ [WriteCommand (ILI9341_RAMWR c)]\<rparr>"
    by (simp only: setAddrWindow_eq)
next
  show "setAddrWindow c 10 20 5 8 s =
     s\<lparr>bus := bus s @ [WriteCommand (ILI9341_CASET c),
                      SpiWrite 0, SpiWrite 10, SpiWrite 0, SpiWrite 14,
                      WriteCommand (ILI9341_PASET c),
                      SpiWrite 0, SpiWrite 20, SpiWrite 0, SpiWrite 27,
                      WriteCommand (ILI9341_RAMWR c)]\<rparr>"
    by (simp add: setAddrWindow_eq far_corner_eq big_endian16_def)
qed

theorem setAddrWindow_trace_witness:
  "1 \<le> unat (300 :: uint16_t) + unat (20 :: uint16_t) \<and>
   unat (300 :: uint16_t) + unat (20 :: uint16_t) - 1 < 2 ^ 16 \<and>
   1 \<le> unat (500 :: uint16_t) + unat (7 :: uint16_t) \<and>
   unat (500 :: uint16_t) + unat (7 :: uint16_t) - 1 < 2 ^ 16 \<and>
   bus (setAddrWindow ILI9341_datasheet 300 500 20 7 (example_tft 4))
     = [WriteCommand 0x2A, SpiWrite 0x01, SpiWrite 0x2C, SpiWrite 0x01, SpiWrite 0x3F,
        WriteCommand 0x2B, SpiWrite 0x01, SpiWrite 0xF4, SpiWrite 0x01, SpiWrite 0xFA,
        WriteCommand 0x2C]"
  using setAddrWindow_trace [of 300 20 500 7 ILI9341_datasheet "example_tft 4"]
  by (simp add: big_endian16_def datasheet_codes example_tft_def)

text \<open>
  C10. For all 16-bit x1, y1, w, h, also where x1 + w - 1 or y1 + h - 1 leaves the 16-bit
  range, the corner computation of \<^verbatim>\<open>setAddrWindow\<close> is defined and wraps around:
  x2 = (x1 + w - 1) mod 2^16 and y2 = (y1 + h - 1) mod 2^16, and these are the values
  in the emitted trace.
\<close>

theorem setAddrWindow_wraps:
  "far_corner x1 w = x1 + w - 1 \<and>
   uint (far_corner x1 w) = (uint x1 + uint w - 1) mod 2 ^ 16 \<and>
   uint (far_corner y1 h) = (uint y1 + uint h - 1) mod 2 ^ 16 \<and>
   setAddrWindow c x1 y1 w h s =
     s\<lparr>bus := bus s @ WriteCommand (ILI9341_CASET c) # big_endian16 (unat x1)
            @ big_endian16 (nat ((uint x1 + uint w - 1) mod 2 ^ 16))
            @ WriteCommand (ILI9341_PASET c) # big_endian16 (unat y1)
            @ big_endian16 (nat ((uint y1 + uint h - 1) mod 2 ^ 16))
            @ [WriteCommand (ILI9341_RAMWR c)]\<rparr>"
  by (simp only: setAddrWindow_eq far_corner_eq unat_eq_nat_uint
      uint_far_corner [unfolded far_corner_eq] simp_thms)

theorem setAddrWindow_wraps_witness:
  "far_corner 65535 2 = 0 \<and> far_corner 0 0 = 65535 \<and>
   bus (setAddrWindow ILI9341_datasheet 65535 0 2 0 (example_tft 4))
     = [WriteCommand 0x2A, SpiWrite 0xFF, SpiWrite 0xFF, SpiWrite 0x00, SpiWrite 0x00,
        WriteCommand 0x2B, SpiWrite 0x00, SpiWrite 0x00, SpiWrite 0xFF, SpiWrite 0xFF,
        WriteCommand 0x2C]"
  using setAddrWindow_wraps [of 65535 2 0 0 ILI9341_datasheet "example_tft 4"]
    setAddrWindow_wraps [of 0 0 0 0 ILI9341_datasheet "example_tft 4"]
  by (simp add: big_endian16_def datasheet_codes example_tft_def)

text \<open>
  C7, as the claim states it: a public operation would change no data member of the
  driver other than the cached width and height. \<^verbatim>\<open>setRotation(1)\<close> on a driver in
  rotation 0 changes the stored rotation.
\<close>

theorem setRotation_stores_rotation:
  "rotation (example_tft 4) = 0 \<and> rotation (setRotation ILI9341_datasheet 1 (example_tft 4)) = 1"
  by (simp add: setRotation_def Let_def startWrite_def endWrite_def writeCommand_def
      spiWrite_def example_tft_def)

text \<open>
  C7, amended. The data members of the driver after a public operation differ from
  those before in at most the cached width and height and the stored rotation:
  \<^verbatim>\<open>begin\<close> sets width and height to the native dimensions and keeps the rotation,
  \<^verbatim>\<open>setRotation(m)\<close> stores m mod 4 as the rotation (and sets width and height), and
  \<^verbatim>\<open>invertDisplay\<close>, \<^verbatim>\<open>scrollTo\<close>, \<^verbatim>\<open>setAddrWindow\<close> and \<^verbatim>\<open>readcommand8\<close> change no data
  member. No operation changes the reset pin.
\<close>

theorem members_frame:
  "map_option members (tft_begin c freq s)
     = Some (rst s, ILI9341_TFTWIDTH c, ILI9341_TFTHEIGHT c, rotation s) \<and>
   rst (setRotation c m s) = rst s \<and>
   rotation (setRotation c m s) = m mod 4 \<and>
   members (invertDisplay c invert s) = members s \<and>
   members (scrollTo c y s) = members s \<and>
   members (setAddrWindow c x1 y1 w h s) = members s \<and>
   members (snd (readcommand8 command index s)) = members s"
proof -
  obtain tev where tev: "interpret_table (initcmd c) = Some tev"
    using interpret_initcmd_total by blast
  then have "map_option members (tft_begin c freq s)
     = Some (rst s, ILI9341_TFTWIDTH c, ILI9341_TFTHEIGHT c, rotation s)"
    by (simp add: tft_begin_eq members_def)
  moreover have "members (invertDisplay c invert s) = members s"
    by (simp add: invertDisplay_def members_def Let_def startWrite_def endWrite_def
        writeCommand_def)
  moreover have "members (scrollTo c y s) = members s"
    by (simp add: scrollTo_def members_def Let_def startWrite_def endWrite_def
        writeCommand_def SPI_WRITE16_eq)
  moreover have "members (setAddrWindow c x1 y1 w h s) = members s"
    by (simp add: setAddrWindow_eq members_def)
  moreover have "members (snd (readcommand8 command index s)) = members s"
    by (simp add: readcommand8_def members_def Let_def startWrite_def endWrite_def
        writeCommand_def spiWrite_def spiRead_def)
  ultimately show ?thesis using setRotation_rst_rotation [of c m s] by simp
qed

theorem members_frame_witness:
  "map_option members (tft_begin ILI9341_datasheet 24000000 (example_tft 4)) = Some (4, 240, 320, 0) \<and>
   members (setRotation ILI9341_datasheet 5 (example_tft 4)) = (4, 320, 240, 1) \<and>
   members (invertDisplay ILI9341_datasheet True (example_tft 4)) = (4, 240, 320, 0) \<and>
   members (scrollTo ILI9341_datasheet 300 (example_tft 4)) = (4, 240, 320, 0) \<and>
   members (setAddrWindow ILI9341_datasheet 10 20 5 8 (example_tft 4)) = (4, 240, 320, 0) \<and>
   members (snd (readcommand8 0x0A 0 (example_tft 4))) = (4, 240, 320, 0)"
  using members_frame [where c = ILI9341_datasheet and freq = 24000000 and s = "example_tft 4"
      and m = 5 and invert = True and y = 300 and ?x1.0 = 10 and ?y1.0 = 20 and w = 5 and h = 8
      and command = "0x0A" and index = 0]
  by (simp add: members_def example_tft_def datasheet_codes setRotation_def Let_def
      startWrite_def endWrite_def writeCommand_def spiWrite_def)




text \<open>
  C9. For every command and index, \<^verbatim>\<open>readcommand8(command, index)\<close> opens one
  transaction, in which it issues the command 0xD9 with the data byte 0x10 + index
  (one byte: the sum modulo 256), then the target command, then reads one byte, and
  closes the transaction; it returns the byte read unmodified, sends nothing else and
  changes nothing else.
\<close>

theorem readcommand8_trace:
  "readcommand8 command index s =
     (miso s (nread s),
      s\<lparr>bus := bus s @ [StartWrite, WriteCommand 0xD9, SpiWrite (0x10 + index),
                       WriteCommand command, SpiRead (miso s (nread s)), EndWrite],
        nread := nread s + 1\<rparr>) \<and>
   unat (0x10 + index) = (16 + unat index) mod 256 \<and>
   scoped False [StartWrite, WriteCommand 0xD9, SpiWrite (0x10 + index),
                 WriteCommand command, SpiRead (miso s (nread s)), EndWrite] \<and>
   opened [StartWrite, WriteCommand 0xD9, SpiWrite (0x10 + index),
           WriteCommand command, SpiRead (miso s (nread s)), EndWrite] = 1 \<and>
   closed [StartWrite, WriteCommand 0xD9, SpiWrite (0x10 + index),
           WriteCommand command, SpiRead (miso s (nread s)), EndWrite] = 1"
  by (simp add: readcommand8_def Let_def startWrite_def endWrite_def writeCommand_def
      spiWrite_def spiRead_def opened_simps closed_simps unat_word_ariths)

theorem readcommand8_trace_witness:
  "readcommand8 0x0A 2 (example_tft 4) =
     (0xA0,
      (example_tft 4)\<lparr>bus := [StartWrite, WriteCommand 0xD9, SpiWrite 0x12,
                               WriteCommand 0x0A, SpiRead 0xA0, EndWrite],
        nread := 1\<rparr>) \<and>
   fst (readcommand8 0x0A 2 (snd (readcommand8 0x0A 2 (example_tft 4)))) = 0xA1"
  using readcommand8_trace [of "0x0A" 2 "example_tft 4"]
    readcommand8_trace [of "0x0A" 2 "snd (readcommand8 0x0A 2 (example_tft 4))"]
  by (simp add: example_tft_def)

end
